theory Spec2Isabelle
  imports Complex_Main "HOL-Library.Sublist"
begin

section \<open>Python values, exceptions and the operations app1.py uses on them\<close>

text \<open>
  A Python string is a \<open>string\<close>: each \<open>char\<close> stands for one code point below 256.
  Values are the ones a JSON document or the engine's result dictionary is made of; a
  dictionary is an association list with string keys, looked up with \<open>map_of\<close>.
  The payload of a float is never inspected by the program.
\<close>

datatype pyval =
    PNone
  | PBool bool
  | PInt int
  | PFloat rat
  | PStr string
  | PList "pyval list"
  | PDict "(string \<times> pyval) list"

text \<open>
  Exceptions, all of them subclasses of \<open>Exception\<close>: those of the built-in operations,
  and \<open>Raised t\<close> for one with text \<open>t\<close> raised by code outside app1.py (the engine).
\<close>

datatype py_exn =
    AttributeError
  | IndexError
  | KeyError
  | TypeError
  | ValueError
  | Raised string

text \<open>\<open>str.isspace\<close> on the code points below 256.\<close>

definition py_isspace :: "char \<Rightarrow> bool" where
  "py_isspace c =
     (let n = (of_char c :: nat)
      in (9 \<le> n \<and> n \<le> 13) \<or> (28 \<le> n \<and> n \<le> 32) \<or> n = 133 \<or> n = 160)"

text \<open>\<open>s.strip()\<close> on a string.\<close>

definition strip :: "string \<Rightarrow> string" where
  "strip s = rev (dropWhile py_isspace (rev (dropWhile py_isspace s)))"

text \<open>
  \<open>v.strip()\<close> on any value: only a string has the method, and its result is a string.
\<close>

fun py_strip :: "pyval \<Rightarrow> py_exn + string" where
  "py_strip (PStr s) = Inr (strip s)"
| "py_strip _ = Inl AttributeError"

text \<open>\<open>v.get(k, d)\<close> on any value: only a dictionary has the method.\<close>

fun py_get :: "pyval \<Rightarrow> string \<Rightarrow> pyval \<Rightarrow> py_exn + pyval" where
  "py_get (PDict kvs) k d = Inr (case map_of kvs k of None \<Rightarrow> d | Some v \<Rightarrow> v)"
| "py_get _ k d = Inl AttributeError"

text \<open>
  \<open>v[0]\<close> on any value: the first element of a list, the first character of a string,
  \<open>IndexError\<close> when either is empty, \<open>KeyError\<close> on a dictionary (its keys are
  strings, never \<open>0\<close>), \<open>TypeError\<close> on a value that cannot be subscripted.
\<close>

fun py_index0 :: "pyval \<Rightarrow> py_exn + pyval" where
  "py_index0 (PList []) = Inl IndexError"
| "py_index0 (PList (x # xs)) = Inr x"
| "py_index0 (PStr []) = Inl IndexError"
| "py_index0 (PStr (c # cs)) = Inr (PStr [c])"
| "py_index0 (PDict kvs) = Inl KeyError"
| "py_index0 _ = Inl TypeError"

section \<open>Configuration (module level of app1.py)\<close>

text \<open>
  \<open>int(s)\<close> on a string, base 10: surrounding whitespace is stripped, one sign is
  allowed, then decimal digits, with single underscores allowed between digits.
  Anything else is \<open>ValueError\<close>. (CPython's limit on the number of digits is not
  modelled.)
\<close>

definition is_digit :: "char \<Rightarrow> bool" where
  "is_digit c = (let n = (of_char c :: nat) in 48 \<le> n \<and> n \<le> 57)"

definition digit_val :: "char \<Rightarrow> int" where
  "digit_val c = int (of_char c) - 48"

text \<open>
  The digits of a literal, underscores removed; \<open>None\<close> when a character is neither, an
  underscore is not between two digits, or there is no digit at all. The flag says that
  the previous character was a digit.
\<close>

fun digits_of :: "bool \<Rightarrow> string \<Rightarrow> string option" where
  "digits_of prev [] = (if prev then Some [] else None)"
| "digits_of prev (c # cs) =
     (if is_digit c then map_option (\<lambda>ds. c # ds) (digits_of True cs)
      else if c = CHR ''_'' \<and> prev then digits_of False cs
      else None)"

definition py_int :: "string \<Rightarrow> py_exn + int" where
  "py_int s =
     (let t = strip s;
          (neg, body) =
            (case t of
               c # cs \<Rightarrow>
                 if c = CHR ''-'' then (True, cs)
                 else if c = CHR ''+'' then (False, cs)
                 else (False, t)
             | [] \<Rightarrow> (False, t))
      in case digits_of False body of
           None \<Rightarrow> Inl ValueError
         | Some ds \<Rightarrow>
             let n = foldl (\<lambda>a d. 10 * a + digit_val d) 0 ds
             in Inr (if neg then - n else n))"

text \<open>The process environment, \<open>os.environ\<close>.\<close>

type_synonym environ = "string \<rightharpoonup> string"

text \<open>\<open>int(os.environ.get(k, d))\<close> with an integer default \<open>d\<close>.\<close>

definition env_int :: "environ \<Rightarrow> string \<Rightarrow> int \<Rightarrow> py_exn + int" where
  "env_int env k d = (case env k of None \<Rightarrow> Inr d | Some s \<Rightarrow> py_int s)"

record config =
  MODEL_PATH :: string
  HOST_PORT :: int
  LLM_N_CTX :: int
  LLM_N_GPU_LAYERS :: int

text \<open>
  The four module-level assignments, in the order of the source. An exception of
  \<open>int\<close> ends the import of the module, so no later setting is read.
\<close>

definition load_config :: "environ \<Rightarrow> py_exn + config" where
  "load_config env =
     (let mp = (case env ''LLM_MODEL_PATH'' of
                  None \<Rightarrow> ''llama-2-7b-chat.Q4_K_M.gguf''
                | Some s \<Rightarrow> s)
      in case env_int env ''HOST_PORT'' 5000 of
           Inl e \<Rightarrow> Inl e
         | Inr port \<Rightarrow>
             (case env_int env ''LLM_N_CTX'' 4096 of
                Inl e \<Rightarrow> Inl e
              | Inr n_ctx \<Rightarrow>
                  (case env_int env ''LLM_N_GPU_LAYERS'' 0 of
                     Inl e \<Rightarrow> Inl e
                   | Inr n_gpu \<Rightarrow>
                       Inr \<lparr>MODEL_PATH = mp, HOST_PORT = port,
                            LLM_N_CTX = n_ctx, LLM_N_GPU_LAYERS = n_gpu\<rparr>)))"

section \<open>Effects: what the program prints and which engine routines it calls\<close>

text \<open>The keyword arguments of \<open>Llama(...)\<close>.\<close>

record llama_args =
  model_path :: string
  n_ctx :: int
  n_gpu_layers :: int
  verbose :: bool

text \<open>
  The arguments of the completion call \<open>llm(prompt, ...)\<close>. The two float literals
  are kept as the decimal numbers written in the source; no arithmetic is done on them.
\<close>

record completion_args =
  prompt :: string
  max_tokens :: int
  stop :: "string list"
  echo :: bool
  temperature :: rat
  top_k :: int
  top_p :: rat

text \<open>
  One constructor for each \<open>print\<close> statement, carrying the values it interpolates, and
  one for each call into the engine. \<open>'h\<close> is the type of engine instances.
\<close>

datatype 'h event =
    ErrModelNotFound string
  | ErrModelHint
  | LogLoading string int int
  | CallLlama llama_args
  | CallLlamaCache 'h
  | LogLoaded
  | ErrLoading py_exn
  | CallCompletion 'h completion_args
  | LogConversation
  | LogUser string
  | LogBot string
  | ErrInference py_exn

text \<open>
  What lies outside app1.py: the file system test, the constructor of the engine, the
  constructor \<open>LlamaCache\<close> (its result is dropped by the program, so only whether it
  raises matters), and the completion routine of an instance.
\<close>

record 'h world =
  path_exists :: "string \<Rightarrow> bool"
  Llama :: "llama_args \<Rightarrow> py_exn + 'h"
  LlamaCache :: "'h \<Rightarrow> py_exn + unit"
  complete :: "'h \<Rightarrow> completion_args \<Rightarrow> py_exn + pyval"

section \<open>Loading the model: \<open>load_llm_model\<close>\<close>

text \<open>
  The function reads and assigns the global \<open>llm\<close>. The model takes the global's old
  value and returns the value the function returns, the global's new value and the
  events in order. The assignment \<open>llm = Llama(...)\<close> happens before
  \<open>LlamaCache(llm)\<close> is called, and the handler of the \<open>try\<close> does not undo it.
\<close>

definition load_llm_model ::
  "config \<Rightarrow> 'h world \<Rightarrow> 'h option \<Rightarrow> 'h option \<times> 'h option \<times> 'h event list" where
  "load_llm_model cfg w llm =
     (if \<not> path_exists w (MODEL_PATH cfg)
      then (None, llm, [ErrModelNotFound (MODEL_PATH cfg), ErrModelHint])
      else
        let args = \<lparr>model_path = MODEL_PATH cfg, n_ctx = LLM_N_CTX cfg,
                    n_gpu_layers = LLM_N_GPU_LAYERS cfg, verbose = False\<rparr>;
            pre = [LogLoading (MODEL_PATH cfg) (LLM_N_CTX cfg) (LLM_N_GPU_LAYERS cfg),
                   CallLlama args]
        in case Llama w args of
             Inl e \<Rightarrow> (None, llm, pre @ [ErrLoading e])
           | Inr h \<Rightarrow>
               (case LlamaCache w h of
                  Inl e \<Rightarrow> (None, Some h, pre @ [CallLlamaCache h, ErrLoading e])
                | Inr u \<Rightarrow> (Some h, Some h, pre @ [CallLlamaCache h, LogLoaded])))"

section \<open>The completion endpoint: \<open>chatbot_api\<close>\<close>

text \<open>
  The body of a request as Flask sees it: none, one it cannot read as JSON, or a JSON
  document. \<open>request.get_json(silent=True)\<close> gives \<open>None\<close> in the first two cases
  and the parsed value otherwise; the document \<open>null\<close> parses to \<open>None\<close> as well.
\<close>

datatype request_body = NoBody | NotJson string | Json pyval

fun get_json_silent :: "request_body \<Rightarrow> pyval" where
  "get_json_silent NoBody = PNone"
| "get_json_silent (NotJson raw) = PNone"
| "get_json_silent (Json v) = v"

text \<open>A response: the status code and the dictionary given to \<open>jsonify\<close>.\<close>

record response =
  status :: nat
  body :: pyval

definition jsonify :: "(string \<times> pyval) list \<Rightarrow> nat \<Rightarrow> response" where
  "jsonify d code = \<lparr>status = code, body = PDict d\<rparr>"

definition unavailable_response :: response where
  "unavailable_response =
     jsonify [(''response'', PStr ''The chatbot model is not available. Check server logs.'')] 503"

definition invalid_json_response :: response where
  "invalid_json_response =
     jsonify [(''error'', PStr ''Invalid JSON or missing request body.'')] 400"

definition no_message_response :: response where
  "no_message_response = jsonify [(''error'', PStr ''No message provided'')] 400"

definition internal_error_response :: response where
  "internal_error_response =
     jsonify [(''response'',
               PStr ''An internal server error occurred while generating a response.'')] 500"

text \<open>The prompt template, as the four adjacent literals of the source.\<close>

definition build_prompt :: "string \<Rightarrow> string" where
  "build_prompt user_message =
     ''A chat between a curious user and an AI assistant. The assistant gives helpful, concise, and polite answers to the user's questions. ''
     @ ''If the assistant does not know the answer, it says so.\<newline>\<newline>''
     @ (''### User:\<newline>'' @ user_message @ ''\<newline>\<newline>'')
     @ ''### Assistant:\<newline>''"

definition completion_call :: "string \<Rightarrow> completion_args" where
  "completion_call p =
     \<lparr>prompt = p, max_tokens = 200, stop = [''### User:'', ''\<newline>###''],
      echo = False, temperature = 7 / 10, top_k = 40, top_p = 95 / 100\<rparr>"

text \<open>\<open>output.get("choices", [{}])[0].get("text", "").strip()\<close>, step by step.\<close>

definition extract_text :: "pyval \<Rightarrow> py_exn + string" where
  "extract_text output =
     (case py_get output ''choices'' (PList [PDict []]) of
        Inl e \<Rightarrow> Inl e
      | Inr choices \<Rightarrow>
          (case py_index0 choices of
             Inl e \<Rightarrow> Inl e
           | Inr choice \<Rightarrow>
               (case py_get choice ''text'' (PStr []) of
                  Inl e \<Rightarrow> Inl e
                | Inr t \<Rightarrow> py_strip t)))"

text \<open>
  The part of the handler inside \<open>try\<close>: every exception, of the engine or of the
  extraction, is caught by \<open>except Exception\<close> and answered with status 500.
\<close>

definition infer :: "'h world \<Rightarrow> 'h \<Rightarrow> string \<Rightarrow> response \<times> 'h event list" where
  "infer w h user_message =
     (let args = completion_call (build_prompt user_message)
      in case complete w h args of
           Inl e \<Rightarrow> (internal_error_response, [CallCompletion h args, ErrInference e])
         | Inr output \<Rightarrow>
             (case extract_text output of
                Inl e \<Rightarrow> (internal_error_response, [CallCompletion h args, ErrInference e])
              | Inr response_text \<Rightarrow>
                  (jsonify [(''response'', PStr response_text)] 200,
                   [CallCompletion h args, LogConversation, LogUser user_message,
                    LogBot response_text])))"

text \<open>
  The handler. \<open>Inl e\<close> is an exception that leaves the handler: the two method calls
  on the request data are made before \<open>try\<close>.
\<close>

definition chatbot_api ::
  "'h world \<Rightarrow> 'h option \<Rightarrow> request_body \<Rightarrow> (py_exn + response) \<times> 'h event list" where
  "chatbot_api w llm req =
     (case llm of
        None \<Rightarrow> (Inr unavailable_response, [])
      | Some h \<Rightarrow>
          let data = get_json_silent req
          in if data = PNone then (Inr invalid_json_response, [])
             else
               (case py_get data ''message'' (PStr []) of
                  Inl e \<Rightarrow> (Inl e, [])
                | Inr m \<Rightarrow>
                    (case py_strip m of
                       Inl e \<Rightarrow> (Inl e, [])
                     | Inr user_message \<Rightarrow>
                         if user_message = [] then (Inr no_message_response, [])
                         else (case infer w h user_message of
                                 (r, evs) \<Rightarrow> (Inr r, evs)))))"

text \<open>
  The fixed system preamble the specification speaks of, for comparison with the
  literals of \<open>build_prompt\<close>.
\<close>

definition system_preamble :: string where
  "system_preamble =
     ''A chat between a curious user and an AI assistant. The assistant gives helpful, concise, and polite answers to the user's questions. If the assistant does not know the answer, it says so.\<newline>\<newline>''"

section \<open>Test doubles for the engine\<close>

text \<open>
  Three concrete worlds over handles numbered by \<open>nat\<close>, in each of which the model
  file exists and the constructor returns handle \<open>0\<close>: one whose completion routine
  returns a given value, one whose completion routine raises, and one whose
  \<open>LlamaCache\<close> raises.
\<close>

definition engine_returning :: "pyval \<Rightarrow> nat world" where
  "engine_returning out =
     \<lparr>path_exists = (\<lambda>p. True), Llama = (\<lambda>a. Inr 0), LlamaCache = (\<lambda>h. Inr ()),
      complete = (\<lambda>h a. Inr out)\<rparr>"

definition engine_raising :: "string \<Rightarrow> nat world" where
  "engine_raising t =
     \<lparr>path_exists = (\<lambda>p. True), Llama = (\<lambda>a. Inr 0), LlamaCache = (\<lambda>h. Inr ()),
      complete = (\<lambda>h a. Inl (Raised t))\<rparr>"

definition cache_raising :: "string \<Rightarrow> pyval \<Rightarrow> nat world" where
  "cache_raising t out =
     \<lparr>path_exists = (\<lambda>p. True), Llama = (\<lambda>a. Inr 0), LlamaCache = (\<lambda>h. Inl (Raised t)),
      complete = (\<lambda>h a. Inr out)\<rparr>"

section \<open>The unavailable state\<close>

text \<open>
  C1. While the global handle is \<open>None\<close>, the handler answers every request, whatever
  its body (none, unreadable, or any JSON document), with status 503 and the fixed
  message, and calls nothing.
\<close>

theorem unavailable_always_503:
  "chatbot_api w None req =
     (Inr \<lparr>status = 503,
           body = PDict [(''response'',
                          PStr ''The chatbot model is not available. Check server logs.'')]\<rparr>,
      [])"
  by (simp add: chatbot_api_def unavailable_response_def jsonify_def)

section \<open>Validation of the request\<close>

lemma dropWhile_all_iff: "(\<forall>x \<in> set (dropWhile P xs). P x) \<longleftrightarrow> (\<forall>x \<in> set xs. P x)"
  by (induction xs) auto

lemma strip_empty_iff: "strip s = [] \<longleftrightarrow> (\<forall>c \<in> set s. py_isspace c)"
  by (simp add: strip_def dropWhile_eq_Nil_conv dropWhile_all_iff)

lemma chatbot_api_dict:
  "chatbot_api w (Some h) (Json (PDict kvs)) =
     (case py_strip (case map_of kvs ''message'' of None \<Rightarrow> PStr [] | Some v \<Rightarrow> v) of
        Inl e \<Rightarrow> (Inl e, [])
      | Inr user_message \<Rightarrow>
          if user_message = [] then (Inr no_message_response, [])
          else (Inr (fst (infer w h user_message)), snd (infer w h user_message)))"
  by (simp add: chatbot_api_def split: sum.splits prod.splits)

text \<open>
  C2, as stated, at the body \<open>null\<close>: it is a valid JSON document without a
  \<open>message\<close> field, yet the answer is the invalid-JSON error and not
  "No message provided", because \<open>get_json\<close> yields \<open>None\<close> for it and the handler
  tests \<open>data is None\<close>.
\<close>

theorem null_body_counterexample:
  "fst (chatbot_api (engine_returning PNone) (Some 0) (Json PNone)) =
     Inr \<lparr>status = 400,
          body = PDict [(''error'', PStr ''Invalid JSON or missing request body.'')]\<rparr>
   \<and> fst (chatbot_api (engine_returning PNone) (Some 0) (Json PNone)) \<noteq>
     Inr \<lparr>status = 400, body = PDict [(''error'', PStr ''No message provided'')]\<rparr>"
  by (simp add: chatbot_api_def invalid_json_response_def jsonify_def)

text \<open>
  C2, amended. With the handle available: when \<open>get_json\<close> yields \<open>None\<close> (no body, a
  body that is not JSON, or the document \<open>null\<close>), the answer is 400 with the
  invalid-JSON error; when it yields a JSON object whose \<open>message\<close> is absent, or is a
  string that is empty or consists of whitespace only, the answer is 400 with
  "No message provided". In both cases no call is made to the engine.
\<close>

theorem validation_order:
  "(get_json_silent req = PNone \<longrightarrow>
      chatbot_api w (Some h) req =
        (Inr \<lparr>status = 400,
              body = PDict [(''error'', PStr ''Invalid JSON or missing request body.'')]\<rparr>, []))
   \<and> (get_json_silent req = PDict kvs
        \<and> (map_of kvs ''message'' = None
             \<or> (\<exists>s. map_of kvs ''message'' = Some (PStr s) \<and> (\<forall>c \<in> set s. py_isspace c))) \<longrightarrow>
      chatbot_api w (Some h) req =
        (Inr \<lparr>status = 400, body = PDict [(''error'', PStr ''No message provided'')]\<rparr>, []))"
proof (intro conjI impI)
  assume "get_json_silent req = PNone"
  then show "chatbot_api w (Some h) req =
        (Inr \<lparr>status = 400,
              body = PDict [(''error'', PStr ''Invalid JSON or missing request body.'')]\<rparr>, [])"
    by (simp add: chatbot_api_def invalid_json_response_def jsonify_def)
next
  assume a: "get_json_silent req = PDict kvs
        \<and> (map_of kvs ''message'' = None
             \<or> (\<exists>s. map_of kvs ''message'' = Some (PStr s) \<and> (\<forall>c \<in> set s. py_isspace c)))"
  then have r: "req = Json (PDict kvs)" by (cases req) auto
  from a have "py_strip (case map_of kvs ''message'' of None \<Rightarrow> PStr [] | Some v \<Rightarrow> v) = Inr []"
    by (auto simp: strip_empty_iff)
  then show "chatbot_api w (Some h) req =
        (Inr \<lparr>status = 400, body = PDict [(''error'', PStr ''No message provided'')]\<rparr>, [])"
    by (simp add: r chatbot_api_dict no_message_response_def jsonify_def)
qed

text \<open>The two parts of the amended C2 at a body that is not JSON and at a blank message.\<close>

theorem validation_order_witness:
  "chatbot_api (engine_returning PNone) (Some 0) (NotJson ''{oops'') =
     (Inr \<lparr>status = 400,
           body = PDict [(''error'', PStr ''Invalid JSON or missing request body.'')]\<rparr>, [])
   \<and> chatbot_api (engine_returning PNone) (Some 0) (Json (PDict [(''message'', PStr '' '')])) =
     (Inr \<lparr>status = 400, body = PDict [(''error'', PStr ''No message provided'')]\<rparr>, [])"
  using validation_order [of "NotJson ''{oops''" "engine_returning PNone" 0 "[]"]
    validation_order [of "Json (PDict [(''message'', PStr '' '')])" "engine_returning PNone" 0
      "[(''message'', PStr '' '')]"]
  by (simp add: py_isspace_def)

text \<open>
  A body that is valid JSON but not an object, or a \<open>message\<close> that is not a string,
  makes a method call fail before \<open>try\<close> is entered: the exception leaves the handler.
\<close>

lemma non_object_body_escapes:
  "chatbot_api (engine_returning PNone) (Some 0) (Json (PList [])) = (Inl AttributeError, [])"
  "chatbot_api (engine_returning PNone) (Some 0) (Json (PDict [(''message'', PInt 5)]))
     = (Inl AttributeError, [])"
  by (simp_all add: chatbot_api_def)

section \<open>The prompt and the completion call\<close>

text \<open>
  C3. For every user message \<open>m\<close> (so for every non-empty trimmed one), the prompt is
  the system preamble, then the section \<open>### User:\<close> holding \<open>m\<close>, then the empty
  section \<open>### Assistant:\<close> with which it ends; for \<open>What is 2+2?\<close> it contains
  \<open>### User:\<close>, a line break and the message, and ends with \<open>### Assistant:\<close> and a
  line break.
\<close>

theorem prompt_shape:
  "build_prompt m = system_preamble @ ''### User:\<newline>'' @ m @ ''\<newline>\<newline>'' @ ''### Assistant:\<newline>''
   \<and> prefix system_preamble (build_prompt m)
   \<and> sublist (''### User:\<newline>'' @ m) (build_prompt m)
   \<and> suffix ''### Assistant:\<newline>'' (build_prompt m)
   \<and> sublist ''### User:\<newline>What is 2+2?'' (build_prompt ''What is 2+2?'')
   \<and> suffix ''### Assistant:\<newline>'' (build_prompt ''What is 2+2?'')"
proof -
  have eq: "build_prompt u = system_preamble @ ''### User:\<newline>'' @ u @ ''\<newline>\<newline>'' @ ''### Assistant:\<newline>''" for u
    by (simp add: build_prompt_def system_preamble_def)
  have pre: "prefix system_preamble (build_prompt u)" for u
    unfolding eq by (rule prefixI) (rule refl)
  have sub: "sublist (''### User:\<newline>'' @ u) (build_prompt u)" for u
  proof -
    have "build_prompt u = system_preamble @ (''### User:\<newline>'' @ u) @ (''\<newline>\<newline>'' @ ''### Assistant:\<newline>'')"
      unfolding eq by simp
    then show ?thesis
      unfolding sublist_def by blast
  qed
  have suf: "suffix ''### Assistant:\<newline>'' (build_prompt u)" for u
  proof -
    have "build_prompt u = (system_preamble @ ''### User:\<newline>'' @ u @ ''\<newline>\<newline>'') @ ''### Assistant:\<newline>''"
      unfolding eq by simp
    then show ?thesis by (rule suffixI)
  qed
  have sub2: "sublist ''### User:\<newline>What is 2+2?'' (build_prompt ''What is 2+2?'')"
    using sub [of "''What is 2+2?''"] by simp
  show ?thesis using eq pre sub suf sub2 by blast
qed

lemma infer_events:
  "CallCompletion h' a \<in> set (snd (infer w h m)) \<Longrightarrow> h' = h \<and> a = completion_call (build_prompt m)"
  by (auto simp: infer_def Let_def split: sum.splits)

text \<open>
  C4. Whenever the handler calls the completion routine, it does so on the global
  handle with the prompt built from the trimmed \<open>message\<close> of the request, which is not
  empty, and with \<open>max_tokens = 200\<close>, the two stop sequences, \<open>echo = False\<close>,
  \<open>temperature = 0.7\<close>, \<open>top_k = 40\<close> and \<open>top_p = 0.95\<close>.
\<close>

theorem completion_arguments:
  assumes "CallCompletion h a \<in> set (snd (chatbot_api w llm req))"
  shows "llm = Some h
    \<and> (\<exists>raw. py_get (get_json_silent req) ''message'' (PStr []) = Inr (PStr raw)
          \<and> strip raw \<noteq> [] \<and> prompt a = build_prompt (strip raw))
    \<and> max_tokens a = 200
    \<and> stop a = [''### User:'', ''\<newline>###'']
    \<and> echo a = False
    \<and> temperature a = 7 / 10
    \<and> top_k a = 40
    \<and> top_p a = 95 / 100"
proof -
  from assms obtain h0 where l: "llm = Some h0"
    by (cases llm) (auto simp: chatbot_api_def)
  from assms l obtain m where g: "py_get (get_json_silent req) ''message'' (PStr []) = Inr m"
    by (cases "py_get (get_json_silent req) ''message'' (PStr [])")
       (auto simp: chatbot_api_def Let_def split: if_splits)
  from assms l g obtain raw where m: "m = PStr raw"
    by (cases m) (auto simp: chatbot_api_def Let_def split: if_splits)
  from assms l g m have ne: "strip raw \<noteq> []"
    by (auto simp: chatbot_api_def Let_def split: if_splits)
  from assms l g m ne have "CallCompletion h a \<in> set (snd (infer w h0 (strip raw)))"
    by (auto simp: chatbot_api_def Let_def split: if_splits prod.splits)
  then have "h = h0 \<and> a = completion_call (build_prompt (strip raw))"
    by (rule infer_events)
  then have "h = h0" and a: "a = completion_call (build_prompt (strip raw))"
    by simp_all
  with l g m ne show ?thesis
    by (simp add: completion_call_def)
qed

text \<open>C4 at the message \<open>Hello\<close> with surrounding blanks: the call is made.\<close>

theorem completion_arguments_witness:
  "CallCompletion 0 (completion_call (build_prompt ''Hello''))
     \<in> set (snd (chatbot_api (engine_returning (PDict [])) (Some 0)
                   (Json (PDict [(''message'', PStr '' Hello '')]))))
   \<and> max_tokens (completion_call (build_prompt ''Hello'')) = 200
   \<and> stop (completion_call (build_prompt ''Hello'')) = [''### User:'', ''\<newline>###'']
   \<and> temperature (completion_call (build_prompt ''Hello'')) = 7 / 10"
proof -
  have s: "strip '' Hello '' = ''Hello''"
    by (simp add: strip_def py_isspace_def)
  have m: "CallCompletion 0 (completion_call (build_prompt ''Hello''))
     \<in> set (snd (chatbot_api (engine_returning (PDict [])) (Some 0)
                   (Json (PDict [(''message'', PStr '' Hello '')]))))"
    by (simp add: chatbot_api_def s infer_def Let_def engine_returning_def extract_text_def
        split: sum.splits)
  from completion_arguments [OF m] m show ?thesis by simp
qed

section \<open>Failure of the inference call\<close>

text \<open>
  C5. When the completion call the handler makes raises an exception \<open>e\<close>, the handler
  returns (no exception leaves it) status 500 with the fixed message. The response is
  the same constant whatever \<open>e\<close> is: the exception goes to the error stream only.
\<close>

theorem inference_exception_gives_500:
  assumes "CallCompletion h a \<in> set (snd (chatbot_api w llm req))"
    and "complete w h a = Inl e"
  shows "chatbot_api w llm req =
     (Inr \<lparr>status = 500,
           body = PDict [(''response'',
                          PStr ''An internal server error occurred while generating a response.'')]\<rparr>,
      [CallCompletion h a, ErrInference e])"
proof -
  from assms(1) obtain h0 where l: "llm = Some h0"
    by (cases llm) (auto simp: chatbot_api_def)
  from assms(1) l obtain m where g: "py_get (get_json_silent req) ''message'' (PStr []) = Inr m"
    by (cases "py_get (get_json_silent req) ''message'' (PStr [])")
       (auto simp: chatbot_api_def Let_def split: if_splits)
  from assms(1) l g obtain raw where m: "m = PStr raw"
    by (cases m) (auto simp: chatbot_api_def Let_def split: if_splits)
  from assms(1) l g m have ne: "strip raw \<noteq> []"
    by (auto simp: chatbot_api_def Let_def split: if_splits)
  from assms(1) l g m ne have "CallCompletion h a \<in> set (snd (infer w h0 (strip raw)))"
    by (auto simp: chatbot_api_def Let_def split: if_splits prod.splits)
  then have "h = h0 \<and> a = completion_call (build_prompt (strip raw))"
    by (rule infer_events)
  then have h: "h0 = h" and a: "completion_call (build_prompt (strip raw)) = a"
    by simp_all
  have np: "get_json_silent req \<noteq> PNone"
    using g by (auto)
  have "infer w h (strip raw) =
      (internal_error_response, [CallCompletion h a, ErrInference e])"
    using assms(2) by (simp add: infer_def Let_def a)
  with l g m ne np h show ?thesis
    by (simp add: chatbot_api_def Let_def internal_error_response_def jsonify_def)
qed

text \<open>C5 with a test double whose completion routine raises.\<close>

theorem inference_exception_gives_500_witness:
  "chatbot_api (engine_raising ''CUDA out of memory'') (Some 0)
       (Json (PDict [(''message'', PStr ''Hello'')])) =
     (Inr \<lparr>status = 500,
           body = PDict [(''response'',
                          PStr ''An internal server error occurred while generating a response.'')]\<rparr>,
      [CallCompletion 0 (completion_call (build_prompt ''Hello'')),
       ErrInference (Raised ''CUDA out of memory'')])"
proof -
  have s: "strip ''Hello'' = ''Hello''"
    by (simp add: strip_def py_isspace_def)
  have m: "CallCompletion 0 (completion_call (build_prompt ''Hello''))
     \<in> set (snd (chatbot_api (engine_raising ''CUDA out of memory'') (Some 0)
                   (Json (PDict [(''message'', PStr ''Hello'')]))))"
    by (simp add: chatbot_api_def s infer_def Let_def engine_raising_def)
  have r: "complete (engine_raising ''CUDA out of memory'') 0
             (completion_call (build_prompt ''Hello'')) = Inl (Raised ''CUDA out of memory'')"
    by (simp add: engine_raising_def)
  from inference_exception_gives_500 [OF m r] show ?thesis .
qed

section \<open>The configuration loader\<close>








text \<open>
  C9. The loader is a function of the four variables: two environments that agree on
  them (so in particular two identical environments) give the same result; and when
  none of the four is set, the result is the documented defaults.
\<close>

theorem config_deterministic:
  "((\<forall>k \<in> {''LLM_MODEL_PATH'', ''HOST_PORT'', ''LLM_N_CTX'', ''LLM_N_GPU_LAYERS''}.
        env1 k = env2 k) \<longrightarrow> load_config env1 = load_config env2)
   \<and> ((\<forall>k \<in> {''LLM_MODEL_PATH'', ''HOST_PORT'', ''LLM_N_CTX'', ''LLM_N_GPU_LAYERS''}.
        env k = None) \<longrightarrow>
      load_config env =
        Inr \<lparr>MODEL_PATH = ''llama-2-7b-chat.Q4_K_M.gguf'', HOST_PORT = 5000,
             LLM_N_CTX = 4096, LLM_N_GPU_LAYERS = 0\<rparr>)"
proof (intro conjI impI)
  assume "\<forall>k \<in> {''LLM_MODEL_PATH'', ''HOST_PORT'', ''LLM_N_CTX'', ''LLM_N_GPU_LAYERS''}.
        env1 k = env2 k"
  then have "env1 ''LLM_MODEL_PATH'' = env2 ''LLM_MODEL_PATH''"
    and "env_int env1 ''HOST_PORT'' 5000 = env_int env2 ''HOST_PORT'' 5000"
    and "env_int env1 ''LLM_N_CTX'' 4096 = env_int env2 ''LLM_N_CTX'' 4096"
    and "env_int env1 ''LLM_N_GPU_LAYERS'' 0 = env_int env2 ''LLM_N_GPU_LAYERS'' 0"
    by (simp_all add: env_int_def)
  then show "load_config env1 = load_config env2"
    by (simp add: load_config_def split: sum.splits)
next
  assume "\<forall>k \<in> {''LLM_MODEL_PATH'', ''HOST_PORT'', ''LLM_N_CTX'', ''LLM_N_GPU_LAYERS''}.
        env k = None"
  then show "load_config env =
        Inr \<lparr>MODEL_PATH = ''llama-2-7b-chat.Q4_K_M.gguf'', HOST_PORT = 5000,
             LLM_N_CTX = 4096, LLM_N_GPU_LAYERS = 0\<rparr>"
    by (simp add: load_config_def env_int_def)
qed

text \<open>C9 at two environments that differ outside the four variables.\<close>

theorem config_deterministic_witness:
  "load_config [''HOST_PORT'' \<mapsto> ''8080'', ''EDITOR'' \<mapsto> ''vi'']
     = load_config [''HOST_PORT'' \<mapsto> ''8080'', ''HOME'' \<mapsto> ''/root'']
   \<and> load_config [''HOME'' \<mapsto> ''/root''] =
        Inr \<lparr>MODEL_PATH = ''llama-2-7b-chat.Q4_K_M.gguf'', HOST_PORT = 5000,
             LLM_N_CTX = 4096, LLM_N_GPU_LAYERS = 0\<rparr>"
  using config_deterministic
          [where ?env1.0 = "[''HOST_PORT'' \<mapsto> ''8080'', ''EDITOR'' \<mapsto> ''vi'']"
             and ?env2.0 = "[''HOST_PORT'' \<mapsto> ''8080'', ''HOME'' \<mapsto> ''/root'']"
             and env = "[''HOME'' \<mapsto> ''/root'']"]
  by simp

section \<open>Loading the model\<close>



text \<open>
  C10. When the constructor returns \<open>h\<close> and \<open>LlamaCache\<close> then raises,
  \<open>load_llm_model\<close> returns \<open>None\<close> but the global \<open>llm\<close> is \<open>h\<close>. With that global
  the handler never gives the unavailable answer, and a request with a non-blank
  message is served by the engine: status 200 with the extracted text.
\<close>

theorem cache_failure_leaves_handle:
  assumes "path_exists w (MODEL_PATH cfg)"
    and "Llama w \<lparr>model_path = MODEL_PATH cfg, n_ctx = LLM_N_CTX cfg,
                   n_gpu_layers = LLM_N_GPU_LAYERS cfg, verbose = False\<rparr> = Inr h"
    and "LlamaCache w h = Inl e"
  shows "fst (load_llm_model cfg w None) = None
    \<and> fst (snd (load_llm_model cfg w None)) = Some h
    \<and> fst (chatbot_api w (fst (snd (load_llm_model cfg w None))) req) \<noteq> Inr unavailable_response
    \<and> (strip msg \<noteq> [] \<and> complete w h (completion_call (build_prompt (strip msg))) = Inr out
         \<and> extract_text out = Inr t \<longrightarrow>
       chatbot_api w (fst (snd (load_llm_model cfg w None)))
           (Json (PDict [(''message'', PStr msg)])) =
         (Inr \<lparr>status = 200, body = PDict [(''response'', PStr t)]\<rparr>,
          [CallCompletion h (completion_call (build_prompt (strip msg))),
           LogConversation, LogUser (strip msg), LogBot t]))"
proof -
  have l: "load_llm_model cfg w None =
      (None, Some h,
       [LogLoading (MODEL_PATH cfg) (LLM_N_CTX cfg) (LLM_N_GPU_LAYERS cfg),
        CallLlama \<lparr>model_path = MODEL_PATH cfg, n_ctx = LLM_N_CTX cfg,
                   n_gpu_layers = LLM_N_GPU_LAYERS cfg, verbose = False\<rparr>,
        CallLlamaCache h, ErrLoading e])"
    using assms by (simp add: load_llm_model_def Let_def)
  have u: "fst (chatbot_api w (Some h) req) \<noteq> Inr unavailable_response"
    by (auto simp: chatbot_api_def Let_def infer_def unavailable_response_def
        invalid_json_response_def no_message_response_def internal_error_response_def
        jsonify_def split: sum.splits prod.splits)
  have ok: "chatbot_api w (Some h) (Json (PDict [(''message'', PStr msg)])) =
         (Inr \<lparr>status = 200, body = PDict [(''response'', PStr t)]\<rparr>,
          [CallCompletion h (completion_call (build_prompt (strip msg))),
           LogConversation, LogUser (strip msg), LogBot t])"
    if "strip msg \<noteq> []"
      and "complete w h (completion_call (build_prompt (strip msg))) = Inr out"
      and "extract_text out = Inr t"
    using that by (simp add: chatbot_api_def infer_def Let_def jsonify_def)
  show ?thesis using l u ok by simp
qed

text \<open>C10 with a test double whose \<open>LlamaCache\<close> raises.\<close>

theorem cache_failure_leaves_handle_witness:
  "fst (load_llm_model \<lparr>MODEL_PATH = ''m.gguf'', HOST_PORT = 5000, LLM_N_CTX = 4096,
                        LLM_N_GPU_LAYERS = 0\<rparr>
          (cache_raising ''bad capacity'' (PDict [(''choices'', PList [PDict [(''text'', PStr '' Hi! '')]])]))
          None) = None
   \<and> chatbot_api (cache_raising ''bad capacity'' (PDict [(''choices'', PList [PDict [(''text'', PStr '' Hi! '')]])]))
       (fst (snd (load_llm_model \<lparr>MODEL_PATH = ''m.gguf'', HOST_PORT = 5000, LLM_N_CTX = 4096,
                        LLM_N_GPU_LAYERS = 0\<rparr>
          (cache_raising ''bad capacity'' (PDict [(''choices'', PList [PDict [(''text'', PStr '' Hi! '')]])]))
          None)))
       (Json (PDict [(''message'', PStr ''Hello'')])) =
     (Inr \<lparr>status = 200, body = PDict [(''response'', PStr ''Hi!'')]\<rparr>,
      [CallCompletion 0 (completion_call (build_prompt ''Hello'')),
       LogConversation, LogUser ''Hello'', LogBot ''Hi!''])"
proof -
  let ?out = "PDict [(''choices'', PList [PDict [(''text'', PStr '' Hi! '')]])]"
  let ?w = "cache_raising ''bad capacity'' ?out"
  let ?cfg = "\<lparr>MODEL_PATH = ''m.gguf'', HOST_PORT = 5000, LLM_N_CTX = 4096,
               LLM_N_GPU_LAYERS = 0\<rparr>"
  have a1: "path_exists ?w (MODEL_PATH ?cfg)"
    by (simp add: cache_raising_def)
  have a2: "Llama ?w \<lparr>model_path = MODEL_PATH ?cfg, n_ctx = LLM_N_CTX ?cfg,
                   n_gpu_layers = LLM_N_GPU_LAYERS ?cfg, verbose = False\<rparr> = Inr 0"
    by (simp add: cache_raising_def)
  have a3: "LlamaCache ?w 0 = Inl (Raised ''bad capacity'')"
    by (simp add: cache_raising_def)
  have s: "strip ''Hello'' = ''Hello''"
    by (simp add: strip_def py_isspace_def)
  have c: "complete ?w 0 (completion_call (build_prompt (strip ''Hello''))) = Inr ?out"
    by (simp add: cache_raising_def)
  have x: "extract_text ?out = Inr ''Hi!''"
    by (simp add: extract_text_def strip_def py_isspace_def)
  from cache_failure_leaves_handle [OF a1 a2 a3, where msg = "''Hello''" and out = ?out
      and t = "''Hi!''" and req = NoBody] s c x
  show ?thesis by (elim conjE) simp
qed

section \<open>Extraction of the generated text\<close>

text \<open>
  The defaults of the extraction that do apply: no \<open>choices\<close> key, and a first choice
  without \<open>text\<close>, give the empty string; a \<open>text\<close> is trimmed.
\<close>

lemma extract_text_defaults:
  "extract_text (PDict []) = Inr []"
  "extract_text (PDict [(''choices'', PList [PDict []])]) = Inr []"
  "extract_text (PDict [(''choices'', PList [PDict [(''text'', PStr s)]])]) = Inr (strip s)"
  by (simp_all add: extract_text_def strip_def)

text \<open>
  C8 at the engine output \<open>{"choices": []}\<close>, returned by a completion call that does
  not raise: the default \<open>[{}]\<close> covers only a missing key, so \<open>[][0]\<close> raises
  \<open>IndexError\<close>, which \<open>except Exception\<close> turns into status 500. No empty string is
  substituted and the request does not complete with 200.
\<close>

theorem empty_choices_gives_500:
  "extract_text (PDict [(''choices'', PList [])]) = Inl IndexError
   \<and> chatbot_api (engine_returning (PDict [(''choices'', PList [])])) (Some 0)
       (Json (PDict [(''message'', PStr ''Hello'')])) =
     (Inr \<lparr>status = 500,
           body = PDict [(''response'',
                          PStr ''An internal server error occurred while generating a response.'')]\<rparr>,
      [CallCompletion 0 (completion_call (build_prompt ''Hello'')), ErrInference IndexError])"
proof -
  have s: "strip ''Hello'' = ''Hello''"
    by (simp add: strip_def py_isspace_def)
  have x: "extract_text (PDict [(''choices'', PList [])]) = Inl IndexError"
    by (simp add: extract_text_def)
  show ?thesis
    by (simp add: x chatbot_api_def s infer_def Let_def engine_returning_def
        internal_error_response_def jsonify_def)
qed

end
